theory Spec2Isabelle
  imports Main
begin

section \<open>Python strings\<close>

text \<open>
  A Python \<open>str\<close> is a sequence of Unicode code points. It is modelled as a list of
  natural numbers, one per code point, so that \<open>length\<close> counts what Python's \<open>len\<close>
  counts and the whitespace test below sees code points, not bytes. The function \<open>u\<close>
  turns an ASCII literal into such a list; the quotation marks (34, 39), the backslash
  (92) and the code points outside printable ASCII are written as numbers. Those that
  occur in the program text are
  224 (a grave), 225 (a acute), 226 (a circumflex), 227 (a tilde), 231 (c cedilla),
  233 (e acute), 234 (e circumflex), 237 (i acute), 243 (o acute), 245 (o tilde),
  250 (u acute), and 10 (line feed).
\<close>

type_synonym pystr = "nat list"

definition u :: "string \<Rightarrow> pystr" where
  "u s = map of_char s"

text \<open>
  \<open>str.split()\<close> without arguments: the string is cut at every run of whitespace, and no
  empty token is produced. Whitespace is what CPython's \<open>Py_UNICODE_ISSPACE\<close> accepts:
  U+0009 to U+000D, U+001C to U+0020, U+0085, U+00A0, U+1680, U+2000 to U+200A, U+2028,
  U+2029, U+202F, U+205F and U+3000.
\<close>

definition isspace :: "nat \<Rightarrow> bool" where
  "isspace c = ((9 \<le> c \<and> c \<le> 13) \<or> (28 \<le> c \<and> c \<le> 32) \<or> c = 133 \<or> c = 160
     \<or> c = 5760 \<or> (8192 \<le> c \<and> c \<le> 8202) \<or> c = 8232 \<or> c = 8233
     \<or> c = 8239 \<or> c = 8287 \<or> c = 12288)"

text \<open>\<open>split_from w s\<close>: the tokens of \<open>s\<close>, where \<open>w\<close> holds (reversed) the characters of
  the token being read.\<close>

fun split_from :: "pystr \<Rightarrow> pystr \<Rightarrow> pystr list" where
  "split_from w [] = (if w = [] then [] else [rev w])"
| "split_from w (c # cs) =
     (if isspace c then (if w = [] then split_from [] cs else rev w # split_from [] cs)
      else split_from (c # w) cs)"

definition split :: "pystr \<Rightarrow> pystr list" where
  "split v = split_from [] v"

definition startswith :: "pystr \<Rightarrow> pystr \<Rightarrow> bool" where
  "startswith s p = (take (length p) s = p)"

text \<open>
  \<open>s.replace(old, new)\<close>: every occurrence of \<open>old\<close> is replaced, scanning from the left
  and continuing after each occurrence; an empty \<open>old\<close> matches before every character and
  at the end.
\<close>

fun replace :: "pystr \<Rightarrow> pystr \<Rightarrow> pystr \<Rightarrow> pystr" where
  "replace [] old new = (if old = [] then new else [])"
| "replace (c # cs) old new =
     (if old = [] then new @ c # replace cs old new
      else if startswith (c # cs) old then new @ replace (drop (length old - 1) cs) old new
      else c # replace cs old new)"

section \<open>JSON text\<close>

subsection \<open>Documents\<close>

text \<open>
  A parsed JSON document. An integer literal is \<open>JInt\<close>; a literal with a fraction or an
  exponent is \<open>JFloat m e\<close>, standing for the decimal \<open>m * 10 ^ e\<close> (the rounding to a
  binary double that the library applies is not modelled); \<open>JNaN\<close> and \<open>JInfinity\<close> are
  the non-finite literals that the library's parser accepts. An object keeps its members
  in the order of the text.
\<close>

datatype json = JNull | JBool bool | JInt int | JFloat int int | JNaN | JInfinity bool
  | JStr pystr | JArr "json list" | JObj "(pystr \<times> json) list"

subsection \<open>Parsing\<close>

text \<open>
  The parser behind \<open>model_validate_json\<close> is library code. The model is a recursive
  descent parser for the JSON grammar (RFC 8259) together with the literals \<open>NaN\<close>,
  \<open>Infinity\<close> and \<open>-Infinity\<close>. Every function takes the text still to be read and
  returns what it read with the rest of the text, or \<open>None\<close> where the text is malformed.
  The library's limit on the nesting depth is not modelled.
\<close>

definition is_json_ws :: "nat \<Rightarrow> bool" where
  "is_json_ws c = (c = 32 \<or> c = 9 \<or> c = 10 \<or> c = 13)"

fun skip_ws :: "pystr \<Rightarrow> pystr" where
  "skip_ws [] = []"
| "skip_ws (c # cs) = (if is_json_ws c then skip_ws cs else c # cs)"

text \<open>The first character after whitespace, and the text behind it.\<close>

definition next_char :: "pystr \<Rightarrow> (nat \<times> pystr) option" where
  "next_char s = (case skip_ws s of [] \<Rightarrow> None | c # cs \<Rightarrow> Some (c, cs))"

definition hex_val :: "nat \<Rightarrow> nat option" where
  "hex_val c = (if 48 \<le> c \<and> c \<le> 57 then Some (c - 48)
     else if 97 \<le> c \<and> c \<le> 102 then Some (c - 87)
     else if 65 \<le> c \<and> c \<le> 70 then Some (c - 55) else None)"

fun hex4 :: "pystr \<Rightarrow> nat option" where
  "hex4 [a, b, c, d] =
     (case (hex_val a, hex_val b, hex_val c, hex_val d) of
        (Some x, Some y, Some z, Some w) \<Rightarrow> Some (((x * 16 + y) * 16 + z) * 16 + w)
      | _ \<Rightarrow> None)"
| "hex4 _ = None"

definition escape_char :: "nat \<Rightarrow> nat option" where
  "escape_char e = (if e = 34 then Some 34 else if e = 92 then Some 92 else if e = 47 then Some 47
     else if e = 98 then Some 8 else if e = 102 then Some 12 else if e = 110 then Some 10
     else if e = 114 then Some 13 else if e = 116 then Some 9 else None)"

text \<open>
  The text after a backslash: the code point it stands for and the rest. An escape with
  four hexadecimal digits in the range of the high surrogates must be followed by one in
  the range of the low surrogates, and the two give one code point.
\<close>

definition unescape :: "pystr \<Rightarrow> (nat \<times> pystr) option" where
  "unescape s =
     (case s of
        [] \<Rightarrow> None
      | e # r \<Rightarrow>
          if e \<noteq> 117 then map_option (\<lambda>x. (x, r)) (escape_char e)
          else
            (case hex4 (take 4 r) of
               None \<Rightarrow> None
             | Some h \<Rightarrow>
                 if h < 55296 \<or> 57344 \<le> h then Some (h, drop 4 r)
                 else if 56320 \<le> h then None
                 else if \<not> startswith (drop 4 r) [92, 117] then None
                 else (case hex4 (take 4 (drop 6 r)) of
                         None \<Rightarrow> None
                       | Some l \<Rightarrow>
                           if 56320 \<le> l \<and> l < 57344
                           then Some (65536 + (h - 55296) * 1024 + (l - 56320), drop 10 r)
                           else None)))"

lemma unescape_shorter: "unescape s = Some (x, r) \<Longrightarrow> length r < Suc (length s)"
  by (auto simp: unescape_def split: if_splits option.splits list.splits)

text \<open>The body of a string, after its opening quote, up to the closing quote; \<open>acc\<close> holds
  the code points read so far, reversed.\<close>

function string_body :: "pystr \<Rightarrow> pystr \<Rightarrow> (pystr \<times> pystr) option" where
  "string_body acc [] = None"
| "string_body acc (c # cs) =
     (if c = 34 then Some (rev acc, cs)
      else if c < 32 then None
      else if c \<noteq> 92 then string_body (c # acc) cs
      else (case unescape cs of
              None \<Rightarrow> None
            | Some (x, r) \<Rightarrow> string_body (x # acc) r))"
  by pat_completeness auto
termination
  by (relation "measure (\<lambda>(acc, s). length s)") (auto dest: unescape_shorter)

lemma string_body_shorter: "string_body acc s = Some (t, r) \<Longrightarrow> length r < length s"
proof (induction acc s arbitrary: t r rule: string_body.induct)
  case (1 acc)
  then show ?case by simp
next
  case (2 acc c cs)
  show ?case
  proof (cases "c = 34 \<or> c < 32 \<or> c \<noteq> 92")
    case True
    with 2 show ?thesis by (auto split: if_splits)
  next
    case False
    with "2.prems" obtain x r0 where x: "unescape cs = Some (x, r0)"
      "string_body (x # acc) r0 = Some (t, r)"
      by (auto split: option.splits)
    with "2.IH"(2) False have "length r < length r0" by fastforce
    with unescape_shorter [OF x(1)] show ?thesis by simp
  qed
qed

definition is_digit :: "nat \<Rightarrow> bool" where
  "is_digit c = (48 \<le> c \<and> c \<le> 57)"

definition digits_value :: "pystr \<Rightarrow> nat" where
  "digits_value ds = foldl (\<lambda>a d. 10 * a + (d - 48)) 0 ds"

text \<open>
  A number: an optional minus sign, the integer digits (no leading zero before another
  digit), an optional fraction and an optional exponent. \<open>fraction\<close> and \<open>exponent\<close>
  return what they read, \<open>None\<close> where the part is absent, and the rest.
\<close>

definition fraction :: "pystr \<Rightarrow> (pystr option \<times> pystr) option" where
  "fraction s =
     (if startswith s [46] then
        (if takeWhile is_digit (drop 1 s) = [] then None
         else Some (Some (takeWhile is_digit (drop 1 s)), dropWhile is_digit (drop 1 s)))
      else Some (None, s))"

definition exponent :: "pystr \<Rightarrow> (int option \<times> pystr) option" where
  "exponent s =
     (if startswith s [101] \<or> startswith s [69] then
        (let s1 = drop 1 s;
             neg = startswith s1 [45];
             s2 = (if neg \<or> startswith s1 [43] then drop 1 s1 else s1);
             es = takeWhile is_digit s2
         in if es = [] then None
            else Some (Some ((if neg then - 1 else 1) * int (digits_value es)),
                       dropWhile is_digit s2))
      else Some (None, s))"

definition number :: "pystr \<Rightarrow> (json \<times> pystr) option" where
  "number s =
     (let neg = startswith s [45];
          s1 = (if neg then drop 1 s else s);
          ds = takeWhile is_digit s1;
          sign = (if neg then - 1 else 1)
      in if ds = [] \<or> (1 < length ds \<and> startswith ds [48]) then None
         else
           (case fraction (dropWhile is_digit s1) of
              None \<Rightarrow> None
            | Some (frac, s2) \<Rightarrow>
                (case exponent s2 of
                   None \<Rightarrow> None
                 | Some (ex, s3) \<Rightarrow>
                     if frac = None \<and> ex = None
                     then Some (JInt (sign * int (digits_value ds)), s3)
                     else
                       (let fs = (case frac of None \<Rightarrow> [] | Some f \<Rightarrow> f);
                            e = (case ex of None \<Rightarrow> 0 | Some x \<Rightarrow> x)
                        in Some (JFloat (sign * int (digits_value (ds @ fs)))
                                        (e - int (length fs)), s3)))))"

text \<open>A literal name or a number.\<close>

definition atom :: "pystr \<Rightarrow> (json \<times> pystr) option" where
  "atom s =
     (if startswith s (u ''true'') then Some (JBool True, drop 4 s)
      else if startswith s (u ''false'') then Some (JBool False, drop 5 s)
      else if startswith s (u ''null'') then Some (JNull, drop 4 s)
      else if startswith s (u ''NaN'') then Some (JNaN, drop 3 s)
      else if startswith s (u ''Infinity'') then Some (JInfinity False, drop 8 s)
      else if startswith s (u ''-Infinity'') then Some (JInfinity True, drop 9 s)
      else number s)"

text \<open>The name of an object member with the colon behind it.\<close>

definition member_key :: "pystr \<Rightarrow> (pystr \<times> pystr) option" where
  "member_key s =
     (case next_char s of
        None \<Rightarrow> None
      | Some (q, s1) \<Rightarrow>
          if q \<noteq> 34 then None
          else (case string_body [] s1 of
                  None \<Rightarrow> None
                | Some (k, s2) \<Rightarrow>
                    (case next_char s2 of
                       None \<Rightarrow> None
                     | Some (col, s3) \<Rightarrow> if col = 58 then Some (k, s3) else None)))"

lemma skip_ws_length: "length (skip_ws s) \<le> length s"
  by (induction s) auto

lemma next_char_shorter: "next_char s = Some (c, cs) \<Longrightarrow> length cs < length s"
  using skip_ws_length [of s] by (auto simp: next_char_def split: list.splits)

lemma member_key_shorter: "member_key s = Some (k, r) \<Longrightarrow> length r < length s"
  by (fastforce simp: member_key_def split: option.splits if_splits
        dest: next_char_shorter string_body_shorter)

text \<open>
  A value; the elements of an array after its opening bracket or a comma; the members of
  an object after its opening brace or a comma. The test on the lengths before an element
  or member is read makes the recursion visibly terminating; it always succeeds
  (\<open>parse_value_shorter\<close> below), so it rejects nothing.
\<close>

function parse_value :: "pystr \<Rightarrow> (json \<times> pystr) option"
  and parse_elements :: "json list \<Rightarrow> pystr \<Rightarrow> (json list \<times> pystr) option"
  and parse_members ::
    "(pystr \<times> json) list \<Rightarrow> pystr \<Rightarrow> ((pystr \<times> json) list \<times> pystr) option"
where
  "parse_value s =
     (case next_char s of
        None \<Rightarrow> None
      | Some (c, cs) \<Rightarrow>
          if c = 34 then map_option (apfst JStr) (string_body [] cs)
          else if c = 91 then
            (case next_char cs of
               None \<Rightarrow> None
             | Some (d, r) \<Rightarrow>
                 if d = 93 then Some (JArr [], r)
                 else map_option (apfst JArr) (parse_elements [] cs))
          else if c = 123 then
            (case next_char cs of
               None \<Rightarrow> None
             | Some (d, r) \<Rightarrow>
                 if d = 125 then Some (JObj [], r)
                 else map_option (apfst JObj) (parse_members [] cs))
          else atom (c # cs))"
| "parse_elements acc s =
     (case parse_value s of
        None \<Rightarrow> None
      | Some (v, r) \<Rightarrow>
          (case next_char r of
             None \<Rightarrow> None
           | Some (d, r') \<Rightarrow>
               if d = 44 then
                 (if length r' < length s then parse_elements (v # acc) r' else None)
               else if d = 93 then Some (rev (v # acc), r')
               else None))"
| "parse_members acc s =
     (case member_key s of
        None \<Rightarrow> None
      | Some (k, s3) \<Rightarrow>
          (case parse_value s3 of
             None \<Rightarrow> None
           | Some (v, r) \<Rightarrow>
               (case next_char r of
                  None \<Rightarrow> None
                | Some (d, r') \<Rightarrow>
                    if d = 44 then
                      (if length r' < length s then parse_members ((k, v) # acc) r' else None)
                    else if d = 125 then Some (rev ((k, v) # acc), r')
                    else None)))"
  by pat_completeness auto
termination
  by (relation "measure (\<lambda>x. case x of Inl s \<Rightarrow> 2 * length s
          | Inr (Inl (acc, s)) \<Rightarrow> 2 * length s + 1
          | Inr (Inr (acc, s)) \<Rightarrow> 2 * length s + 1)")
     (auto dest: next_char_shorter member_key_shorter)

declare parse_value.simps [simp del] parse_elements.simps [simp del]
  parse_members.simps [simp del]

text \<open>A document is one value with nothing but whitespace behind it.\<close>

definition json_loads :: "pystr \<Rightarrow> json option" where
  "json_loads s =
     (case parse_value s of
        None \<Rightarrow> None
      | Some (v, r) \<Rightarrow> if skip_ws r = [] then Some v else None)"

subsection \<open>Serializing\<close>

text \<open>
  The values that occur in the literal the program serializes: strings, booleans, lists
  and dictionaries with string keys (in insertion order).
\<close>

datatype pyobj = PyStr pystr | PyBool bool | PyList "pyobj list" | PyDict "(pystr \<times> pyobj) list"

definition hex_digit :: "nat \<Rightarrow> nat" where
  "hex_digit n = (if n < 10 then 48 + n else 87 + n)"

text \<open>
  \<open>json.dumps(obj, ensure_ascii=False)\<close> with the default separators: inside a string the
  quote, the backslash and the control characters are escaped, and every other code point
  is written as it is.
\<close>

definition escape :: "nat \<Rightarrow> pystr" where
  "escape c =
     (if c = 34 then [92, 34] else if c = 92 then [92, 92] else if c = 10 then [92, 110]
      else if c = 13 then [92, 114] else if c = 9 then [92, 116] else if c = 8 then [92, 98]
      else if c = 12 then [92, 102]
      else if c < 32 then [92, 117, 48, 48, hex_digit (c div 16), hex_digit (c mod 16)]
      else [c])"

definition encode_basestring :: "pystr \<Rightarrow> pystr" where
  "encode_basestring s = [34] @ concat (map escape s) @ [34]"

fun join :: "pystr \<Rightarrow> pystr list \<Rightarrow> pystr" where
  "join sep [] = []"
| "join sep [x] = x"
| "join sep (x # y # ys) = x @ sep @ join sep (y # ys)"

fun json_dumps :: "pyobj \<Rightarrow> pystr" where
  "json_dumps (PyStr s) = encode_basestring s"
| "json_dumps (PyBool b) = (if b then u ''true'' else u ''false'')"
| "json_dumps (PyList xs) = [91] @ join (u '', '') (map json_dumps xs) @ [93]"
| "json_dumps (PyDict kvs) =
     [123] @ join (u '', '') (map (\<lambda>(k, v). encode_basestring k @ u '': '' @ json_dumps v) kvs)
     @ [125]"

text \<open>The document that the text of a serialized value denotes.\<close>

fun to_json :: "pyobj \<Rightarrow> json" where
  "to_json (PyStr s) = JStr s"
| "to_json (PyBool b) = JBool b"
| "to_json (PyList xs) = JArr (map to_json xs)"
| "to_json (PyDict kvs) = JObj (map (\<lambda>(k, v). (k, to_json v)) kvs)"

section \<open>The schema: \<open>ClinicalOutput\<close>\<close>

subsection \<open>Validation errors\<close>

text \<open>
  The two \<open>ValueError\<close>s of \<open>validate_analysis_length\<close>. The message of the source is an
  f-string over the word count and the limit; the model keeps the two numbers.
  \<open>Analise_muito_curta n m\<close> stands for "Analise muito curta (n palavras). Minimo
  esperado: m." and \<open>Analise_muito_longa n m\<close> for "Analise muito longa (n palavras).
  Maximo esperado: m.".
\<close>

datatype value_error = Analise_muito_curta int int | Analise_muito_longa int int

text \<open>
  One entry of \<open>ValidationError.errors()\<close> has a message and a location. The location is a
  tuple of field names and list positions. The message is determined by the kind of the
  error and its parameters, which is what the model keeps: \<open>Too_short m n\<close> is the message
  of a list of \<open>n\<close> items where at least \<open>m\<close> are required, \<open>Too_long m n\<close> of one of \<open>n\<close>
  items where at most \<open>m\<close> are allowed; \<open>Json_invalid\<close> is "Invalid JSON: ..." and
  \<open>Json_type\<close> is "JSON input should be string, bytes or bytearray".
\<close>

datatype loc_item = Loc_key pystr | Loc_index nat

datatype pyd_msg =
    Json_invalid | Json_type | Model_type | Missing
  | String_type | List_type | Too_short nat nat | Too_long nat nat
  | Literal_error | Bool_type | Bool_parsing | Value_error value_error

type_synonym line_error = "pyd_msg \<times> loc_item list"

definition with_outer_location :: "loc_item \<Rightarrow> line_error list \<Rightarrow> line_error list" where
  "with_outer_location i es = map (\<lambda>(m, l). (m, i # l)) es"

fun errors_of :: "line_error list + 'a \<Rightarrow> line_error list" where
  "errors_of (Inl es) = es"
| "errors_of (Inr x) = []"

subsection \<open>The validators of the field types\<close>

text \<open>
  What the validation library does for the field types of the schema, on a parsed JSON
  document and in its default (lax) mode. A validator returns the validated value or the
  list of its errors.

  A \<open>str\<close> field accepts a JSON string and nothing else.
\<close>

definition str_validator :: "json \<Rightarrow> line_error list + pystr" where
  "str_validator v = (case v of JStr s \<Rightarrow> Inr s | _ \<Rightarrow> Inl [(String_type, [])])"

text \<open>
  A \<open>List[str]\<close> field with \<open>min_length\<close> and \<open>max_length\<close> accepts a JSON array. Every
  item is validated and the errors of all items are collected, each under its position.
  An array with more items than \<open>max_length\<close> is reported as too long, whatever its items;
  one with fewer than \<open>min_length\<close> is reported as too short when its items are valid.
\<close>

fun validate_iter_to_vec :: "nat \<Rightarrow> json list \<Rightarrow> line_error list \<times> pystr list" where
  "validate_iter_to_vec i [] = ([], [])"
| "validate_iter_to_vec i (x # xs) =
     (let (errors, output) = validate_iter_to_vec (Suc i) xs
      in case str_validator x of
           Inl es \<Rightarrow> (with_outer_location (Loc_index i) es @ errors, output)
         | Inr s \<Rightarrow> (errors, s # output))"

fun max_length_check :: "nat option \<Rightarrow> nat \<Rightarrow> line_error list" where
  "max_length_check None n = []"
| "max_length_check (Some m) n = (if m < n then [(Too_long m n, [])] else [])"

fun min_length_check :: "nat option \<Rightarrow> nat \<Rightarrow> line_error list" where
  "min_length_check None n = []"
| "min_length_check (Some m) n = (if n < m then [(Too_short m n, [])] else [])"

definition list_str_validator ::
  "nat option \<Rightarrow> nat option \<Rightarrow> json \<Rightarrow> line_error list + pystr list" where
  "list_str_validator min_length max_length v =
     (case v of
        JArr xs \<Rightarrow>
          (let (errors, output) = validate_iter_to_vec 0 xs
           in if max_length_check max_length (length xs) \<noteq> []
              then Inl (max_length_check max_length (length xs))
              else if errors \<noteq> [] then Inl errors
              else if min_length_check min_length (length xs) \<noteq> []
              then Inl (min_length_check min_length (length xs))
              else Inr output)
      | _ \<Rightarrow> Inl [(List_type, [])])"

text \<open>A \<open>Literal\<close> field of strings accepts a JSON string that is one of the literals,
  compared code point by code point.\<close>

definition literal_validator :: "pystr list \<Rightarrow> json \<Rightarrow> line_error list + pystr" where
  "literal_validator expected v =
     (case v of
        JStr s \<Rightarrow> if s \<in> set expected then Inr s else Inl [(Literal_error, [])]
      | _ \<Rightarrow> Inl [(Literal_error, [])])"

text \<open>
  A \<open>bool\<close> field accepts a JSON boolean, the numbers 0 and 1, and the strings that the
  library reads as truth values (\<open>0\<close>, \<open>1\<close>, and, in any case of the letters, \<open>f\<close>, \<open>n\<close>,
  \<open>no\<close>, \<open>off\<close>, \<open>false\<close>, \<open>t\<close>, \<open>y\<close>, \<open>on\<close>, \<open>yes\<close>, \<open>true\<close>).
\<close>

definition ascii_lower :: "nat \<Rightarrow> nat" where
  "ascii_lower c = (if 65 \<le> c \<and> c \<le> 90 then c + 32 else c)"

definition str_as_bool :: "pystr \<Rightarrow> bool option" where
  "str_as_bool s =
     (let l = map ascii_lower s
      in if s = u ''0'' \<or> l \<in> set [u ''f'', u ''n'', u ''no'', u ''off'', u ''false''] then Some False
         else if s = u ''1'' \<or> l \<in> set [u ''t'', u ''y'', u ''on'', u ''yes'', u ''true''] then Some True
         else None)"

definition int_as_bool :: "int \<Rightarrow> bool option" where
  "int_as_bool i = (if i = 0 then Some False else if i = 1 then Some True else None)"

definition float_as_int :: "int \<Rightarrow> int \<Rightarrow> int option" where
  "float_as_int m e =
     (if 0 \<le> e then Some (m * 10 ^ nat e)
      else if m mod 10 ^ nat (- e) = 0 then Some (m div 10 ^ nat (- e))
      else None)"

definition bool_validator :: "json \<Rightarrow> line_error list + bool" where
  "bool_validator v =
     (case v of
        JBool b \<Rightarrow> Inr b
      | JStr s \<Rightarrow> (case str_as_bool s of Some b \<Rightarrow> Inr b | None \<Rightarrow> Inl [(Bool_parsing, [])])
      | JInt i \<Rightarrow> (case int_as_bool i of Some b \<Rightarrow> Inr b | None \<Rightarrow> Inl [(Bool_parsing, [])])
      | JFloat m e \<Rightarrow>
          (case float_as_int m e of
             None \<Rightarrow> Inl [(Bool_type, [])]
           | Some i \<Rightarrow> (case int_as_bool i of Some b \<Rightarrow> Inr b | None \<Rightarrow> Inl [(Bool_parsing, [])]))
      | _ \<Rightarrow> Inl [(Bool_type, [])])"

text \<open>
  A field of a model: a member that is absent is reported as missing under the field's
  name; the errors of one that is present are reported under the field's name. Members
  that no field names are ignored. Where a name occurs more than once in an object, the
  last member is taken, as in a Python dictionary.
\<close>

definition field ::
  "(pystr \<times> json) list \<Rightarrow> pystr \<Rightarrow> (json \<Rightarrow> line_error list + 'a) \<Rightarrow> line_error list + 'a" where
  "field kvs name validator =
     (case map_of (rev kvs) name of
        None \<Rightarrow> Inl [(Missing, [Loc_key name])]
      | Some v \<Rightarrow>
          (case validator v of
             Inl es \<Rightarrow> Inl (with_outer_location (Loc_key name) es)
           | Inr x \<Rightarrow> Inr x))"

subsection \<open>The models\<close>

text \<open>
  \<^verbatim>\<open>
    class RiskAssessment(BaseModel):
        level: Literal["baixo", "medio", "alto"]     (with e acute in the second)
        signals: List[str]

    class ClinicalReport(BaseModel):
        required: bool
        summary: str

    class ClinicalOutput(BaseModel):
        analysis: str
        themes: List[str] = Field(min_length=3, max_length=6)
        signifiers: List[str] = Field(min_length=3, max_length=8)
        hypotheses: List[str] = Field(min_length=2, max_length=4)
        questions: List[str] = Field(min_length=3, max_length=6)
        risk_assessment: RiskAssessment
        clinical_report: ClinicalReport
  \<close>
  A model accepts a JSON object. Its fields are validated one after the other in the
  order of their declaration, the errors of all of them are collected in that order, and
  the model is built only when there is no error.
\<close>

record RiskAssessment =
  level :: pystr
  signals :: "pystr list"

record ClinicalReport =
  required :: bool
  summary :: pystr

record ClinicalOutput =
  analysis :: pystr
  themes :: "pystr list"
  signifiers :: "pystr list"
  hypotheses :: "pystr list"
  questions :: "pystr list"
  risk_assessment :: RiskAssessment
  clinical_report :: ClinicalReport

definition RiskAssessment_validator :: "json \<Rightarrow> line_error list + RiskAssessment" where
  "RiskAssessment_validator v =
     (case v of
        JObj kvs \<Rightarrow>
          (let r1 = field kvs (u ''level'')
                      (literal_validator [u ''baixo'', u ''m'' @ [233] @ u ''dio'', u ''alto'']);
               r2 = field kvs (u ''signals'') (list_str_validator None None)
           in case (r1, r2) of
                (Inr l, Inr s) \<Rightarrow> Inr \<lparr>level = l, signals = s\<rparr>
              | _ \<Rightarrow> Inl (errors_of r1 @ errors_of r2))
      | _ \<Rightarrow> Inl [(Model_type, [])])"

definition ClinicalReport_validator :: "json \<Rightarrow> line_error list + ClinicalReport" where
  "ClinicalReport_validator v =
     (case v of
        JObj kvs \<Rightarrow>
          (let r1 = field kvs (u ''required'') bool_validator;
               r2 = field kvs (u ''summary'') str_validator
           in case (r1, r2) of
                (Inr r, Inr s) \<Rightarrow> Inr \<lparr>required = r, summary = s\<rparr>
              | _ \<Rightarrow> Inl (errors_of r1 @ errors_of r2))
      | _ \<Rightarrow> Inl [(Model_type, [])])"

text \<open>
  \<^verbatim>\<open>
    @field_validator('analysis')
    @classmethod
    def validate_analysis_length(cls, v: str) -> str:
        word_count = len(v.split())
        min_words = 40
        max_words = 200
        if word_count < min_words:
            raise ValueError(...)
        if word_count > max_words:
            raise ValueError(...)
        return v
  \<close>
\<close>

definition validate_analysis_length :: "pystr \<Rightarrow> value_error + pystr" where
  "validate_analysis_length v =
     (let word_count = int (length (split v));
          min_words = 40;
          max_words = 200
      in if word_count < min_words then Inl (Analise_muito_curta word_count min_words)
         else if word_count > max_words then Inl (Analise_muito_longa word_count max_words)
         else Inr v)"

text \<open>The field validator runs after the validation of the field as a string; its
  \<open>ValueError\<close> becomes an error of the field.\<close>

definition analysis_validator :: "json \<Rightarrow> line_error list + pystr" where
  "analysis_validator v =
     (case str_validator v of
        Inl es \<Rightarrow> Inl es
      | Inr s \<Rightarrow>
          (case validate_analysis_length s of
             Inl e \<Rightarrow> Inl [(Value_error e, [])]
           | Inr s' \<Rightarrow> Inr s'))"

definition ClinicalOutput_validator :: "json \<Rightarrow> line_error list + ClinicalOutput" where
  "ClinicalOutput_validator v =
     (case v of
        JObj kvs \<Rightarrow>
          (let r1 = field kvs (u ''analysis'') analysis_validator;
               r2 = field kvs (u ''themes'') (list_str_validator (Some 3) (Some 6));
               r3 = field kvs (u ''signifiers'') (list_str_validator (Some 3) (Some 8));
               r4 = field kvs (u ''hypotheses'') (list_str_validator (Some 2) (Some 4));
               r5 = field kvs (u ''questions'') (list_str_validator (Some 3) (Some 6));
               r6 = field kvs (u ''risk_assessment'') RiskAssessment_validator;
               r7 = field kvs (u ''clinical_report'') ClinicalReport_validator
           in case (r1, r2, r3, r4, r5, r6, r7) of
                (Inr a, Inr t, Inr s, Inr h, Inr q, Inr ra, Inr cr) \<Rightarrow>
                  Inr \<lparr>analysis = a, themes = t, signifiers = s, hypotheses = h, questions = q,
                       risk_assessment = ra, clinical_report = cr\<rparr>
              | _ \<Rightarrow> Inl (errors_of r1 @ errors_of r2 @ errors_of r3 @ errors_of r4
                          @ errors_of r5 @ errors_of r6 @ errors_of r7))
      | _ \<Rightarrow> Inl [(Model_type, [])])"

text \<open>
  The exceptions that \<open>validation_node\<close> tells apart. \<open>ClinicalOutput.model_validate_json\<close>
  raises a \<open>ValidationError\<close> in each of its failures: for an argument that is not a
  string (one error, \<open>Json_type\<close>), for a text that is not well-formed JSON (one error,
  \<open>Json_invalid\<close>), and for a document that violates the schema (the errors of the
  schema).
\<close>

datatype exn = ValidationError "line_error list" | JSONDecodeError pystr | Exception pystr

definition model_validate_json :: "pystr option \<Rightarrow> exn + ClinicalOutput" where
  "model_validate_json json_data =
     (case json_data of
        None \<Rightarrow> Inl (ValidationError [(Json_type, [])])
      | Some raw \<Rightarrow>
          (case json_loads raw of
             None \<Rightarrow> Inl (ValidationError [(Json_invalid, [])])
           | Some doc \<Rightarrow>
               (case ClinicalOutput_validator doc of
                  Inl es \<Rightarrow> Inl (ValidationError es)
                | Inr obj \<Rightarrow> Inr obj)))"

text \<open>\<open>model_dump()\<close>: the validated object as a plain dictionary, field by field.\<close>

definition model_dump :: "ClinicalOutput \<Rightarrow> pyobj" where
  "model_dump obj =
     PyDict
       [(u ''analysis'', PyStr (analysis obj)),
        (u ''themes'', PyList (map PyStr (themes obj))),
        (u ''signifiers'', PyList (map PyStr (signifiers obj))),
        (u ''hypotheses'', PyList (map PyStr (hypotheses obj))),
        (u ''questions'', PyList (map PyStr (questions obj))),
        (u ''risk_assessment'',
           PyDict [(u ''level'', PyStr (level (risk_assessment obj))),
                   (u ''signals'', PyList (map PyStr (signals (risk_assessment obj))))]),
        (u ''clinical_report'',
           PyDict [(u ''required'', PyBool (required (clinical_report obj))),
                   (u ''summary'', PyStr (summary (clinical_report obj)))])]"

section \<open>The model call, with its fallback\<close>

text \<open>
  What lies outside the program: the prompt files and the remote model. \<open>prompt_file v\<close>
  is \<open>None\<close> when the file of prompt version \<open>v\<close> does not exist, and otherwise the
  outcome of reading it: its text, or the message of the exception that the read raises.
  \<open>chat_completion p\<close> is the outcome of the request
  \<open>client.chat.completions.create(...).choices[0].message.content\<close> for the user prompt
  \<open>p\<close>: the content, which may be \<open>None\<close>, or the message of the exception raised.
\<close>

record world =
  prompt_file :: "pystr \<Rightarrow> (pystr + pystr) option"
  chat_completion :: "pystr \<Rightarrow> pystr + pystr option"

text \<open>The strings of the literal \<open>mock_response\<close>, field by field.\<close>

definition mock_analysis :: pystr where
  "mock_analysis =
     (u ''O paciente apresenta uma clara manifesta'' @ [231, 227] @ u ''o de resist'' @ [234]
     @ u ''ncia transferencial atrav'' @ [233]
     @ u ''s do manejo do tempo e da palavra. O atraso recorrente ('' @ [39] @ u ''sempre''
     @ [39] @ u '') configura-se como um acting out, uma tentativa de controlar o ''
     @ u ''setting anal'' @ [237] @ u ''tico ou evitar o contato com conte'' @ [250]
     @ u ''dos angustiantes. A percep'' @ [231, 227] @ u ''o de que faz isso '' @ [39]
     @ u ''de prop'' @ [243] @ u ''sito'' @ [39]
     @ u '' sugere um insight incipiente sobre a determina'' @ [231, 227]
     @ u ''o inconsciente de seus atos e uma poss'' @ [237] @ u ''vel forma'' @ [231, 227]
     @ u ''o de compromisso sintom'' @ [225] @ u ''tica. O sil'' @ [234]
     @ u ''ncio que se segue '' @ [224] @ u '' chegada atua como uma barreira secund'' @ [225]
     @ u ''ria, refor'' @ [231] @ u ''ando a recusa em se entregar '' @ [224] @ u '' associa''
     @ [231, 227] @ u ''o livre. Essa din'' @ [226]
     @ u ''mica aponta para uma dificuldade em lidar com a demanda do Outro, ''
     @ u ''possivelmente expressando hostilidade latente ou medo da depend'' @ [234]
     @ u ''ncia.'')"

definition mock_themes :: "pystr list" where
  "mock_themes =
     [(u ''Resist'' @ [234] @ u ''ncia''),
      (u ''Transfer'' @ [234] @ u ''ncia''),
      u ''Controle'',
      (u ''Sil'' @ [234] @ u ''ncio''),
      u ''Tempo'']"

definition mock_signifiers :: "pystr list" where
  "mock_signifiers =
     [u ''Atrasado'',
      (u ''Prop'' @ [243] @ u ''sito''),
      (u ''Sil'' @ [234] @ u ''ncio''),
      u ''Sempre'',
      u ''Chego'']"

definition mock_hypotheses :: "pystr list" where
  "mock_hypotheses =
     [(u ''O atraso funciona como uma defesa contra a ang'' @ [250] @ u ''stia de castra''
      @ [231, 227] @ u ''o ou vulnerabilidade na sess'' @ [227] @ u ''o.''),
      (u ''O sil'' @ [234] @ u ''ncio '' @ [233] @ u '' uma extens'' @ [227]
      @ u ''o da agressividade passiva manifestada pelo atraso.''),
      (u ''A intencionalidade percebida indica um gozo na manuten'' @ [231, 227]
      @ u ''o do sintoma de evita'' @ [231, 227] @ u ''o.'')]"

definition mock_questions :: "pystr list" where
  "mock_questions =
     [(u ''O que voc'' @ [234]
      @ u '' sente ou pensa nos minutos exatos antes de sair para a sess'' @ [227] @ u ''o?''),
      (u ''A quem esse '' @ [39] @ u ''prop'' @ [243] @ u ''sito'' @ [39]
      @ u '' de se atrasar estaria endere'' @ [231] @ u ''ado?''),
      (u ''O sil'' @ [234] @ u ''ncio, quando voc'' @ [234] @ u '' chega, '' @ [233]
      @ u '' vivido como vazio ou como excesso de pensamentos?''),
      (u ''Existem outras situa'' @ [231, 245] @ u ''es em sua vida onde o atraso '' @ [233]
      @ u '' uma regra?'')]"

definition mock_level :: pystr where
  "mock_level =
     u ''baixo''"

definition mock_signals :: "pystr list" where
  "mock_signals =
     [(u ''Aus'' @ [234] @ u ''ncia de idea'' @ [231, 227]
      @ u ''o suicida ou agressiva expl'' @ [237] @ u ''cita''),
      (u ''Discurso focado em mecanismos de defesa neur'' @ [243] @ u ''ticos'')]"

definition mock_summary :: pystr where
  "mock_summary =
     (u ''Paciente relata padr'' @ [227] @ u ''o de resist'' @ [234]
     @ u ''ncia caracterizado por atrasos sistem'' @ [225]
     @ u ''ticos e mutismo subsequente, reconhecendo certa intencionalidade no '' @ u ''ato.'')"

definition mock_response :: pyobj where
  "mock_response =
     PyDict
       [(u ''analysis'', PyStr mock_analysis),
        (u ''themes'', PyList (map PyStr mock_themes)),
        (u ''signifiers'', PyList (map PyStr mock_signifiers)),
        (u ''hypotheses'', PyList (map PyStr mock_hypotheses)),
        (u ''questions'', PyList (map PyStr mock_questions)),
        (u ''risk_assessment'',
           PyDict [(u ''level'', PyStr mock_level),
                   (u ''signals'', PyList (map PyStr mock_signals))]),
        (u ''clinical_report'',
           PyDict [(u ''required'', PyBool False),
                   (u ''summary'', PyStr mock_summary)])]"

text \<open>
  \<^verbatim>\<open>
    def call_model(prompt: str) -> str:
        mock_response = {...}
        try:
            completion = client.chat.completions.create(...)
            return completion.choices[0].message.content
        except Exception as e:
            return json.dumps(mock_response, ensure_ascii=False)
  \<close>
  The lines printed to the console are left out.
\<close>

definition call_model :: "world \<Rightarrow> pystr \<Rightarrow> pystr option" where
  "call_model w prompt =
     (case chat_completion w prompt of
        Inr content \<Rightarrow> content
      | Inl e \<Rightarrow> Some (json_dumps mock_response))"

section \<open>The state and the two nodes\<close>

text \<open>
  The entries of the list \<open>errors\<close> are strings built by four f-strings of the source; the
  model keeps which f-string built the entry and what was put into it:
  \<open>Validation_Error msg loc\<close> is \<open>f"Validation Error: {err['msg']} at {err['loc']}"\<close>,
  \<open>Erro_de_Parse_JSON e\<close> is \<open>f"Erro de Parse JSON: {str(e)}"\<close>,
  \<open>Erro_Desconhecido e\<close> is \<open>f"Erro Desconhecido: {str(e)}"\<close> and
  \<open>Runtime_Error e\<close> is \<open>f"Runtime Error: {e}"\<close>.
\<close>

datatype error_entry =
    Validation_Error pyd_msg "loc_item list"
  | Erro_de_Parse_JSON pystr
  | Erro_Desconhecido pystr
  | Runtime_Error pystr

text \<open>
  \<open>ClinicalState\<close> is a dictionary. \<open>raw_response\<close> is read with \<open>state.get\<close> and a
  default, so the model tells a state without that key (\<open>None\<close>) from one that holds a
  value under it (\<open>Some v\<close>), where the value \<open>v\<close> is a string or Python's \<open>None\<close>. The
  other keys are read by subscript and are present in every state that the graph builds.
\<close>

record ClinicalState =
  filename :: pystr
  input_text :: pystr
  prompt_version :: pystr
  raw_response :: "pystr option option"
  parsed_output :: "ClinicalOutput option"
  errors :: "error_entry list"

text \<open>
  \<^verbatim>\<open>
    def load_prompt(prompt_version: str) -> str:
        path = PROMPTS_DIR / f"prompt_{prompt_version}.txt"
        if not path.exists():
            return """ ... {INPUT} ... """
        return path.read_text(encoding="utf-8")
  \<close>
\<close>

definition default_prompt :: pystr where
  "default_prompt =
     ([10] @ u ''        Voc'' @ [234] @ u '' '' @ [233] @ u '' uma IA de Psican'' @ [225]
     @ u ''lise. Analise o texto abaixo e retorne APENAS um JSON v'' @ [225] @ u ''lido.''
     @ [10] @ u ''        Texto: {INPUT}'' @ [10] @ u ''        '')"

definition load_prompt :: "world \<Rightarrow> pystr \<Rightarrow> pystr + pystr" where
  "load_prompt w version =
     (case prompt_file w version of
        None \<Rightarrow> Inr default_prompt
      | Some r \<Rightarrow> r)"

text \<open>
  \<^verbatim>\<open>
    def generation_node(state: ClinicalState) -> Dict:
        prompt_template = load_prompt(state['prompt_version'])
        full_prompt = prompt_template.replace("{INPUT}", state['input_text'])
        response_str = call_model(full_prompt)
        return {"raw_response": response_str}
  \<close>
  The result is the value of the one key of the returned dictionary, or the message of the
  exception that escapes.
\<close>

definition generation_node :: "world \<Rightarrow> ClinicalState \<Rightarrow> pystr + pystr option" where
  "generation_node w state =
     (case load_prompt w (prompt_version state) of
        Inl e \<Rightarrow> Inl e
      | Inr prompt_template \<Rightarrow>
          (let full_prompt = replace prompt_template (u ''{INPUT}'') (input_text state);
               response_str = call_model w full_prompt
           in Inr response_str))"

text \<open>
  \<^verbatim>\<open>
    def validation_node(state: ClinicalState) -> Dict:
        raw = state.get("raw_response", "")
        errors = []
        parsed_obj = None
        try:
            parsed_obj = ClinicalOutput.model_validate_json(raw)
        except ValidationError as e:
            errors = [f"Validation Error: {err['msg']} at {err['loc']}" for err in e.errors()]
        except json.JSONDecodeError as e:
            errors = [f"Erro de Parse JSON: {str(e)}"]
        except Exception as e:
            errors = [f"Erro Desconhecido: {str(e)}"]
        return {"parsed_output": parsed_obj, "errors": errors}
  \<close>
  The result is the pair of the two values returned.
\<close>

definition validation_node :: "ClinicalState \<Rightarrow> ClinicalOutput option \<times> error_entry list" where
  "validation_node state =
     (let raw = (case raw_response state of None \<Rightarrow> Some [] | Some v \<Rightarrow> v)
      in case model_validate_json raw of
           Inr parsed_obj \<Rightarrow> (Some parsed_obj, [])
         | Inl (ValidationError es) \<Rightarrow> (None, map (\<lambda>(msg, loc). Validation_Error msg loc) es)
         | Inl (JSONDecodeError e) \<Rightarrow> (None, [Erro_de_Parse_JSON e])
         | Inl (Exception e) \<Rightarrow> (None, [Erro_Desconhecido e]))"

text \<open>
  The compiled graph: \<open>generator\<close>, then \<open>validator\<close>, then the end. \<open>invoke\<close> runs the two
  nodes in this order, writes what each returns into the state, and returns the final
  state; an exception that escapes a node escapes \<open>invoke\<close>.
\<close>

definition invoke :: "world \<Rightarrow> ClinicalState \<Rightarrow> pystr + ClinicalState" where
  "invoke w state =
     (case generation_node w state of
        Inl e \<Rightarrow> Inl e
      | Inr response_str \<Rightarrow>
          (let state1 = state\<lparr>raw_response := Some response_str\<rparr>;
               (parsed_obj, errs) = validation_node state1
           in Inr (state1\<lparr>parsed_output := parsed_obj, errors := errs\<rparr>)))"

section \<open>The batch run\<close>

record Metrics =
  ok :: int
  failed :: int

record ItemResult =
  "file" :: pystr
  ok :: bool
  errors :: "error_entry list"
  "output" :: "pyobj option"

record RunReport =
  prompt_version :: pystr
  total :: int
  metrics :: Metrics
  results :: "ItemResult list"

definition initial_state :: "pystr \<Rightarrow> pystr \<Rightarrow> pystr \<Rightarrow> ClinicalState" where
  "initial_state fname text pv =
     \<lparr>filename = fname, input_text = text, ClinicalState.prompt_version = pv,
      raw_response = Some None, parsed_output = None, ClinicalState.errors = []\<rparr>"

text \<open>
  \<^verbatim>\<open>
    for fname, text in items:
        initial_state = {...}
        try:
            final_state = app.invoke(initial_state)
            output_obj = final_state["parsed_output"]
            errors = final_state["errors"]
            is_ok = (output_obj is not None) and (len(errors) == 0)
            if is_ok:
                ok_count += 1
                final_output = output_obj.model_dump()
            else:
                final_output = None
            results.append({"file": fname, "ok": is_ok, "errors": errors,
                            "output": final_output})
        except Exception as e:
            results.append({"file": fname, "ok": False,
                            "errors": [f"Runtime Error: {e}"], "output": None})
  \<close>
  \<open>loop_body\<close> is one round of the loop, on the two variables \<open>results\<close> (here \<open>rs\<close>)
  and \<open>ok_count\<close> that the loop updates. \<open>model_dump\<close> of a validated object raises
  nothing, so the only exception of a round is one that escapes \<open>invoke\<close>. The world may
  change from one item to the next: \<open>w i\<close> is the world while the item at position \<open>i\<close>
  is processed.
\<close>

definition loop_body ::
  "world \<Rightarrow> pystr \<Rightarrow> pystr \<times> pystr \<Rightarrow> ItemResult list \<times> int \<Rightarrow> ItemResult list \<times> int" where
  "loop_body w pv item acc =
     (case (item, acc) of ((fname, text), (rs, ok_count)) \<Rightarrow>
        (case invoke w (initial_state fname text pv) of
           Inr final_state \<Rightarrow>
             (let output_obj = parsed_output final_state;
                  errs = ClinicalState.errors final_state;
                  is_ok = (output_obj \<noteq> None \<and> length errs = 0);
                  ok_count' = (if is_ok then ok_count + 1 else ok_count);
                  final_output = (if is_ok then map_option model_dump output_obj else None)
              in (rs @ [\<lparr>file = fname, ok = is_ok, errors = errs, output = final_output\<rparr>],
                  ok_count'))
         | Inl e \<Rightarrow>
             (rs @ [\<lparr>file = fname, ok = False, errors = [Runtime_Error e], output = None\<rparr>],
              ok_count)))"

fun main_loop ::
  "(nat \<Rightarrow> world) \<Rightarrow> pystr \<Rightarrow> nat \<Rightarrow> (pystr \<times> pystr) list \<Rightarrow> ItemResult list \<times> int
     \<Rightarrow> ItemResult list \<times> int" where
  "main_loop w pv i [] acc = acc"
| "main_loop w pv i (item # items) acc = main_loop w pv (Suc i) items (loop_body (w i) pv item acc)"

text \<open>
  \<^verbatim>\<open>
    def main(prompt_version: str = "v2"):
        items = read_inputs(INPUT_DIR)
        results = []
        ok_count = 0
        for fname, text in items: ...
        payload = {
            "prompt_version": prompt_version,
            "total": len(results),
            "metrics": {"ok": ok_count, "failed": len(results) - ok_count},
            "results": results,
        }
        save_results(payload, OUT_PATH)
  \<close>
  The items read from the input directory are a parameter, and the result is the payload
  that is saved.
\<close>

definition main :: "(nat \<Rightarrow> world) \<Rightarrow> pystr \<Rightarrow> (pystr \<times> pystr) list \<Rightarrow> RunReport" where
  "main w pv items =
     (case main_loop w pv 0 items ([], 0) of (rs, ok_count) \<Rightarrow>
        \<lparr>prompt_version = pv,
         total = int (length rs),
         metrics = \<lparr>Metrics.ok = ok_count, failed = int (length rs) - ok_count\<rparr>,
         results = rs\<rparr>)"

section \<open>Auxiliary notions for the statements\<close>

text \<open>A text of \<open>n\<close> words, for the boundary cases of the word count: the word \<open>ab\<close>
  followed by a space, \<open>n\<close> times.\<close>

definition words :: "nat \<Rightarrow> pystr" where
  "words n = concat (replicate n (u ''ab ''))"

text \<open>The object that the fallback payload validates to.\<close>

definition fallback_output :: ClinicalOutput where
  "fallback_output =
     \<lparr>analysis = mock_analysis, themes = mock_themes, signifiers = mock_signifiers,
      hypotheses = mock_hypotheses, questions = mock_questions,
      risk_assessment = \<lparr>level = mock_level, signals = mock_signals\<rparr>,
      clinical_report = \<lparr>required = False, summary = mock_summary\<rparr>\<rparr>"

text \<open>
  The constraints of the data model as the specification lists them: the word count of
  \<open>analysis\<close> in [40, 200], the lengths of \<open>themes\<close> in [3, 6], of \<open>signifiers\<close> in
  [3, 8], of \<open>hypotheses\<close> in [2, 4], of \<open>questions\<close> in [3, 6], and \<open>level\<close> one of the
  three enumerated values.
\<close>

definition spec_valid :: "ClinicalOutput \<Rightarrow> bool" where
  "spec_valid obj =
     (40 \<le> length (split (analysis obj)) \<and> length (split (analysis obj)) \<le> 200
      \<and> 3 \<le> length (themes obj) \<and> length (themes obj) \<le> 6
      \<and> 3 \<le> length (signifiers obj) \<and> length (signifiers obj) \<le> 8
      \<and> 2 \<le> length (hypotheses obj) \<and> length (hypotheses obj) \<le> 4
      \<and> 3 \<le> length (questions obj) \<and> length (questions obj) \<le> 6
      \<and> level (risk_assessment obj) \<in> {u ''baixo'', u ''m'' @ [233] @ u ''dio'', u ''alto''})"



text \<open>The entry that one round of the loop appends to \<open>results\<close>.\<close>

definition item_result :: "world \<Rightarrow> pystr \<Rightarrow> pystr \<times> pystr \<Rightarrow> ItemResult" where
  "item_result w pv item = last (fst (loop_body w pv item ([], 0)))"

text \<open>Worlds for the concrete cases: one where every model call fails and no prompt file
  exists, one where the prompt file cannot be read, and one where the model returns the
  prompt it was given and the prompt file holds only the placeholder.\<close>

definition quota_world :: world where
  "quota_world = \<lparr>prompt_file = (\<lambda>v. None), chat_completion = (\<lambda>p. Inl (u ''quota''))\<rparr>"

definition unreadable_world :: world where
  "unreadable_world =
     \<lparr>prompt_file = (\<lambda>v. Some (Inl (u ''cannot decode''))),
      chat_completion = (\<lambda>p. Inl (u ''quota''))\<rparr>"

definition echo_world :: world where
  "echo_world =
     \<lparr>prompt_file = (\<lambda>v. Some (Inr (u ''{INPUT}''))), chat_completion = (\<lambda>p. Inr (Some p))\<rparr>"


section \<open>Properties of the parser and the serializer\<close>

lemma ws_facts:
  "is_json_ws 32" "\<not> is_json_ws 34" "\<not> is_json_ws 44" "\<not> is_json_ws 58"
  "\<not> is_json_ws 91" "\<not> is_json_ws 93" "\<not> is_json_ws 123" "\<not> is_json_ws 125"
  "\<not> is_json_ws 116" "\<not> is_json_ws 102"
  by (simp_all add: is_json_ws_def)

lemma skip_ws_prefix: "list_all is_json_ws ws \<Longrightarrow> skip_ws (ws @ s) = skip_ws s"
  by (induction ws) auto

lemma next_char_prefix: "list_all is_json_ws ws \<Longrightarrow> next_char (ws @ s) = next_char s"
  by (simp add: next_char_def skip_ws_prefix)

lemma next_char_Cons: "\<not> is_json_ws c \<Longrightarrow> next_char (c # cs) = Some (c, cs)"
  by (simp add: next_char_def)

lemma parse_value_prefix: "list_all is_json_ws ws \<Longrightarrow> parse_value (ws @ s) = parse_value s"
  by (subst parse_value.simps) (simp add: parse_value.simps [of s] next_char_prefix)

lemma member_key_prefix: "list_all is_json_ws ws \<Longrightarrow> member_key (ws @ s) = member_key s"
  by (simp add: member_key_def next_char_prefix)

subsection \<open>Every value read consumes text\<close>

lemma startswith_drop_shorter:
  assumes "startswith s p" and "p \<noteq> []"
  shows "length (drop (length p) s) < length s"
proof -
  from assms(1) have "length (take (length p) s) = length p"
    by (simp add: startswith_def)
  then have "length p \<le> length s" by simp
  with assms(2) show ?thesis by (cases p) auto
qed

lemma dropWhile_shorter:
  assumes "takeWhile P xs \<noteq> []"
  shows "length (dropWhile P xs) < length xs"
proof -
  have "length (takeWhile P xs) + length (dropWhile P xs) = length xs"
    by (metis length_append takeWhile_dropWhile_id)
  with assms show ?thesis by (cases "takeWhile P xs") auto
qed

lemma dropWhile_drop_le: "length (dropWhile P (drop n xs)) \<le> length xs"
  using length_dropWhile_le [of P "drop n xs"] by simp

lemma fraction_le: "fraction s = Some (f, r) \<Longrightarrow> length r \<le> length s"
  by (auto simp: fraction_def dropWhile_drop_le split: if_splits)

lemma exponent_le: "exponent s = Some (x, r) \<Longrightarrow> length r \<le> length s"
proof -
  have "length (dropWhile is_digit (drop 1 (drop 1 s))) \<le> length s"
    using dropWhile_drop_le [of is_digit 1 "drop 1 s"] by simp
  moreover assume "exponent s = Some (x, r)"
  ultimately show ?thesis
    by (auto simp: exponent_def Let_def dropWhile_drop_le split: if_splits)
qed

lemma number_shorter:
  assumes "number s = Some (v, r)"
  shows "length r < length s"
proof -
  define s1 where "s1 = (if startswith s [45] then drop 1 s else s)"
  from assms have ds: "takeWhile is_digit s1 \<noteq> []"
    by (auto simp: number_def Let_def s1_def split: if_splits)
  from assms obtain frac s2 ex where
    f: "fraction (dropWhile is_digit s1) = Some (frac, s2)" and x: "exponent s2 = Some (ex, r)"
    by (auto simp: number_def Let_def s1_def split: if_splits option.splits)
  have "length s1 \<le> length s" by (simp add: s1_def)
  moreover have "length (dropWhile is_digit s1) < length s1" using ds by (rule dropWhile_shorter)
  moreover note fraction_le [OF f] exponent_le [OF x]
  ultimately show ?thesis by linarith
qed

lemma atom_shorter: "atom s = Some (v, r) \<Longrightarrow> length r < length s"
  using startswith_drop_shorter [of s "u ''true''"] startswith_drop_shorter [of s "u ''false''"]
    startswith_drop_shorter [of s "u ''null''"] startswith_drop_shorter [of s "u ''NaN''"]
    startswith_drop_shorter [of s "u ''Infinity''"] startswith_drop_shorter [of s "u ''-Infinity''"]
  by (auto simp: atom_def u_def split: if_splits dest: number_shorter)

lemma parse_shorter:
  "\<forall>v r. parse_value s = Some (v, r) \<longrightarrow> length r < length s"
  "\<forall>vs r. parse_elements acc s = Some (vs, r) \<longrightarrow> length r < length s"
  "\<forall>kvs r. parse_members accm s' = Some (kvs, r) \<longrightarrow> length r < length s'"
proof (induction s and acc s and accm s' rule: parse_value_parse_elements_parse_members.induct)
  case (1 s)
  show ?case
  proof (intro allI impI)
    fix v r
    assume a: "parse_value s = Some (v, r)"
    then obtain c cs where n: "next_char s = Some (c, cs)"
      by (subst (asm) parse_value.simps) (auto split: option.splits)
    have cs: "length cs < length s" using n by (rule next_char_shorter)
    consider (str) "c = 34" | (arr) "c \<noteq> 34" "c = 91" | (obj) "c \<noteq> 34" "c \<noteq> 91" "c = 123"
      | (atm) "c \<noteq> 34" "c \<noteq> 91" "c \<noteq> 123" by blast
    then show "length r < length s"
    proof cases
      case str
      with a n obtain t where "string_body [] cs = Some (t, r)"
        by (subst (asm) parse_value.simps) auto
      then have "length r < length cs" by (rule string_body_shorter)
      with cs show ?thesis by simp
    next
      case arr
      from a n arr obtain d r0 where d: "next_char cs = Some (d, r0)"
        by (subst (asm) parse_value.simps) (auto split: option.splits)
      show ?thesis
      proof (cases "d = 93")
        case True
        with a n arr d have "r = r0" by (subst (asm) parse_value.simps) auto
        with next_char_shorter [OF d] cs show ?thesis by simp
      next
        case False
        with a n arr d obtain vs where "parse_elements [] cs = Some (vs, r)"
          by (subst (asm) parse_value.simps) auto
        with "1.IH"(1) [OF n _ arr(1) arr(2) d _ False] have "length r < length cs" by auto
        with cs show ?thesis by simp
      qed
    next
      case obj
      from a n obj obtain d r0 where d: "next_char cs = Some (d, r0)"
        by (subst (asm) parse_value.simps) (auto split: option.splits)
      show ?thesis
      proof (cases "d = 125")
        case True
        with a n obj d have "r = r0" by (subst (asm) parse_value.simps) auto
        with next_char_shorter [OF d] cs show ?thesis by simp
      next
        case False
        with a n obj d obtain kvs where "parse_members [] cs = Some (kvs, r)"
          by (subst (asm) parse_value.simps) auto
        with "1.IH"(2) [OF n _ obj(1) obj(2) obj(3) d _ False] have "length r < length cs" by auto
        with cs show ?thesis by simp
      qed
    next
      case atm
      with a n have "atom (c # cs) = Some (v, r)"
        by (subst (asm) parse_value.simps) auto
      then have "length r < length (c # cs)" by (rule atom_shorter)
      with cs show ?thesis by simp
    qed
  qed
next
  case (2 acc s)
  show ?case
  proof (intro allI impI)
    fix vs r
    assume a: "parse_elements acc s = Some (vs, r)"
    then obtain v r0 d r' where v: "parse_value s = Some (v, r0)" and d: "next_char r0 = Some (d, r')"
      by (subst (asm) parse_elements.simps) (auto split: option.splits)
    from "2.IH"(1) v have r0: "length r0 < length s" by auto
    from next_char_shorter [OF d] r0 have r': "length r' < length s" by simp
    show "length r < length s"
    proof (cases "d = 44")
      case True
      with a v d r' have "parse_elements (v # acc) r' = Some (vs, r)"
        by (subst (asm) parse_elements.simps) auto
      with "2.IH"(2) [OF v _ d _ True r'] have "length r < length r'" by auto
      with r' show ?thesis by simp
    next
      case False
      with a v d have "r = r'"
        by (subst (asm) parse_elements.simps) (auto split: if_splits)
      with r' show ?thesis by simp
    qed
  qed
next
  case (3 accm s)
  show ?case
  proof (intro allI impI)
    fix kvs r
    assume a: "parse_members accm s = Some (kvs, r)"
    then obtain k s3 v r0 d r' where k: "member_key s = Some (k, s3)"
      and v: "parse_value s3 = Some (v, r0)" and d: "next_char r0 = Some (d, r')"
      by (subst (asm) parse_members.simps) (auto split: option.splits)
    from "3.IH"(1) [OF k] v have r0: "length r0 < length s3" by auto
    from next_char_shorter [OF d] r0 member_key_shorter [OF k] have r': "length r' < length s"
      by simp
    show "length r < length s"
    proof (cases "d = 44")
      case True
      with a k v d r' have "parse_members ((k, v) # accm) r' = Some (kvs, r)"
        by (subst (asm) parse_members.simps) auto
      with "3.IH"(2) [OF k _ v _ d _ True r'] have "length r < length r'" by auto
      with r' show ?thesis by simp
    next
      case False
      with a k v d have "r = r'"
        by (subst (asm) parse_members.simps) (auto split: if_splits)
      with r' show ?thesis by simp
    qed
  qed
qed

lemma parse_value_shorter: "parse_value s = Some (v, r) \<Longrightarrow> length r < length s"
  using parse_shorter(1) by blast

text \<open>The equations of the elements and the members without the test on the lengths.\<close>

lemma parse_elements_unguarded:
  "parse_elements acc s =
     (case parse_value s of
        None \<Rightarrow> None
      | Some (v, r) \<Rightarrow>
          (case next_char r of
             None \<Rightarrow> None
           | Some (d, r') \<Rightarrow>
               if d = 44 then parse_elements (v # acc) r'
               else if d = 93 then Some (rev (v # acc), r')
               else None))"
proof -
  have "length r' < length s" if "parse_value s = Some (v, r)" "next_char r = Some (d, r')"
    for v r d r'
    using parse_value_shorter [OF that(1)] next_char_shorter [OF that(2)] by simp
  then show ?thesis
    by (subst parse_elements.simps) (auto split: option.splits)
qed

lemma parse_members_unguarded:
  "parse_members acc s =
     (case member_key s of
        None \<Rightarrow> None
      | Some (k, s3) \<Rightarrow>
          (case parse_value s3 of
             None \<Rightarrow> None
           | Some (v, r) \<Rightarrow>
               (case next_char r of
                  None \<Rightarrow> None
                | Some (d, r') \<Rightarrow>
                    if d = 44 then parse_members ((k, v) # acc) r'
                    else if d = 125 then Some (rev ((k, v) # acc), r')
                    else None)))"
proof -
  have "length r' < length s"
    if "member_key s = Some (k, s3)" "parse_value s3 = Some (v, r)" "next_char r = Some (d, r')"
    for k s3 v r d r'
    using member_key_shorter [OF that(1)] parse_value_shorter [OF that(2)]
      next_char_shorter [OF that(3)] by simp
  then show ?thesis
    by (subst parse_members.simps) (auto split: option.splits)
qed

subsection \<open>Strings are read back as they were written\<close>

lemma hex_val_hex_digit: "n < 16 \<Longrightarrow> hex_val (hex_digit n) = Some n"
  by (auto simp: hex_val_def hex_digit_def)

lemma hex4_control:
  assumes "c < 32"
  shows "hex4 [48, 48, hex_digit (c div 16), hex_digit (c mod 16)] = Some c"
proof -
  from assms have "c div 16 < 16" by simp
  then have a: "hex_val (hex_digit (c div 16)) = Some (c div 16)" by (rule hex_val_hex_digit)
  have b: "hex_val (hex_digit (c mod 16)) = Some (c mod 16)" by (rule hex_val_hex_digit) simp
  have z: "hex_val 48 = Some 0" by (simp add: hex_val_def)
  show ?thesis by (simp add: a b z)
qed

lemma string_body_escape: "string_body acc (escape c @ rest) = string_body (c # acc) rest"
proof (cases "c < 32")
  case True
  then show ?thesis
    using hex4_control [OF True]
    by (auto simp: escape_def unescape_def escape_char_def)
next
  case False
  then show ?thesis
    by (auto simp: escape_def unescape_def escape_char_def)
qed

lemma string_body_encoded:
  "string_body acc (concat (map escape s) @ 34 # rest) = Some (rev acc @ s, rest)"
  by (induction s arbitrary: acc) (simp_all add: string_body_escape)

lemma member_key_encoded:
  "member_key (encode_basestring k @ 58 # rest) = Some (k, rest)"
  by (simp add: member_key_def encode_basestring_def next_char_def ws_facts
        string_body_encoded)

subsection \<open>Values are read back as they were written\<close>

text \<open>What a serialized value starts with.\<close>

lemma json_dumps_opener:
  "\<exists>c cs. json_dumps v = c # cs \<and> (c = 34 \<or> c = 91 \<or> c = 123 \<or> c = 116 \<or> c = 102)"
  by (cases v) (auto simp: encode_basestring_def u_def)

lemma parse_elements_encoded:
  assumes "\<And>x rest. x \<in> set (y # ys) \<Longrightarrow> parse_value (json_dumps x @ rest) = Some (to_json x, rest)"
    and "list_all is_json_ws ws"
  shows "parse_elements acc (ws @ join (u '', '') (map json_dumps (y # ys)) @ 93 # rest)
         = Some (rev acc @ map to_json (y # ys), rest)"
  using assms
proof (induction ys arbitrary: y acc ws)
  case Nil
  have "parse_value (ws @ json_dumps y @ 93 # rest) = Some (to_json y, 93 # rest)"
    using Nil by (simp add: parse_value_prefix)
  then show ?case
    by (subst parse_elements.simps) (simp add: next_char_def ws_facts)
next
  case (Cons z zs)
  let ?tail = "join (u '', '') (map json_dumps (z # zs)) @ 93 # rest"
  have v: "parse_value (ws @ json_dumps y @ 44 # 32 # ?tail) = Some (to_json y, 44 # 32 # ?tail)"
    using Cons.prems by (simp add: parse_value_prefix)
  have "parse_elements (to_json y # acc) ([32] @ ?tail)
        = Some (rev (to_json y # acc) @ map to_json (z # zs), rest)"
    by (rule Cons.IH) (use Cons.prems in \<open>simp_all add: ws_facts\<close>)
  with v show ?case
    by (subst parse_elements.simps) (simp add: next_char_def ws_facts u_def)
qed

lemma parse_members_encoded:
  assumes "\<And>k x rest. (k, x) \<in> set (p # ps) \<Longrightarrow>
             parse_value (json_dumps x @ rest) = Some (to_json x, rest)"
    and "list_all is_json_ws ws"
  shows "parse_members acc
           (ws @ join (u '', '')
                   (map (\<lambda>(k, v). encode_basestring k @ u '': '' @ json_dumps v) (p # ps))
               @ 125 # rest)
         = Some (rev acc @ map (\<lambda>(k, v). (k, to_json v)) (p # ps), rest)"
  using assms
proof (induction ps arbitrary: p acc ws)
  case Nil
  obtain k x where p: "p = (k, x)" by (cases p)
  have "parse_value ([32] @ json_dumps x @ 125 # rest) = Some (to_json x, 125 # rest)"
    using Nil p by (simp add: parse_value_prefix ws_facts del: append.simps)
  then show ?case using Nil(2) p
    by (subst parse_members.simps) (simp add: member_key_prefix member_key_encoded
          next_char_def ws_facts u_def)
next
  case (Cons q qs)
  obtain k x where p: "p = (k, x)" by (cases p)
  let ?tail = "join (u '', '')
      (map (\<lambda>(k, v). encode_basestring k @ u '': '' @ json_dumps v) (q # qs)) @ 125 # rest"
  have pv: "\<And>rest. parse_value (json_dumps x @ rest) = Some (to_json x, rest)"
    using Cons.prems(1) [of k x] p by simp
  have v: "parse_value ([32] @ json_dumps x @ 44 # 32 # ?tail) = Some (to_json x, 44 # 32 # ?tail)"
    by (simp add: parse_value_prefix ws_facts pv del: append.simps)
  have "parse_members ((k, to_json x) # acc) ([32] @ ?tail)
        = Some (rev ((k, to_json x) # acc) @ map (\<lambda>(k, v). (k, to_json v)) (q # qs), rest)"
    by (rule Cons.IH) (use Cons.prems in \<open>auto simp: ws_facts\<close>)
  with v show ?case using Cons.prems(2) p
    by (subst parse_members.simps) (simp add: member_key_prefix member_key_encoded
          next_char_def ws_facts u_def)
qed

lemma parse_value_encoded: "parse_value (json_dumps v @ rest) = Some (to_json v, rest)"
proof (induction v arbitrary: rest)
  case (PyStr s)
  show ?case
    by (subst parse_value.simps) (simp add: encode_basestring_def
          next_char_def ws_facts string_body_encoded)
next
  case (PyBool b)
  show ?case
    by (subst parse_value.simps) (simp add: u_def
          next_char_def is_json_ws_def atom_def startswith_def)
next
  case (PyList xs)
  show ?case
  proof (cases xs)
    case Nil
    then show ?thesis
      by (subst parse_value.simps) (simp add: next_char_def ws_facts)
  next
    case (Cons y ys)
    obtain c cs where c: "json_dumps y = c # cs"
      "c = 34 \<or> c = 91 \<or> c = 123 \<or> c = 116 \<or> c = 102"
      using json_dumps_opener by blast
    then have nws: "\<not> is_json_ws c" "c \<noteq> 93"
      by (auto simp: is_json_ws_def)
    have n: "next_char (join (u '', '') (map json_dumps (y # ys)) @ 93 # rest)
             = Some (c, tl (join (u '', '') (map json_dumps (y # ys)) @ 93 # rest))"
      using c nws by (cases ys) (simp_all add: next_char_def)
    have "parse_elements [] ([] @ join (u '', '') (map json_dumps (y # ys)) @ 93 # rest)
          = Some (rev [] @ map to_json (y # ys), rest)"
      by (rule parse_elements_encoded) (use PyList Cons in simp_all)
    then show ?thesis using Cons n nws
      by (subst parse_value.simps) (simp add: next_char_Cons ws_facts)
  qed
next
  case (PyDict kvs)
  show ?case
  proof (cases kvs)
    case Nil
    then show ?thesis
      by (subst parse_value.simps) (simp add: next_char_def ws_facts)
  next
    case (Cons p ps)
    obtain k x where p: "p = (k, x)" by (cases p)
    have n: "next_char (join (u '', '')
               (map (\<lambda>(k, v). encode_basestring k @ u '': '' @ json_dumps v) (p # ps)) @ 125 # rest)
             = Some (34, tl (join (u '', '')
               (map (\<lambda>(k, v). encode_basestring k @ u '': '' @ json_dumps v) (p # ps)) @ 125 # rest))"
      using p by (cases ps) (simp_all add: next_char_def encode_basestring_def ws_facts)
    have "parse_members [] ([] @ join (u '', '')
               (map (\<lambda>(k, v). encode_basestring k @ u '': '' @ json_dumps v) (p # ps)) @ 125 # rest)
          = Some (rev [] @ map (\<lambda>(k, v). (k, to_json v)) (p # ps), rest)"
    proof (rule parse_members_encoded)
      fix k x rest
      assume "(k, x) \<in> set (p # ps)"
      then show "parse_value (json_dumps x @ rest) = Some (to_json x, rest)"
        using PyDict Cons by fastforce
    qed simp
    then show ?thesis using Cons n
      by (subst parse_value.simps) (simp add: next_char_Cons ws_facts)
  qed
qed

lemma json_loads_json_dumps: "json_loads (json_dumps v) = Some (to_json v)"
  using parse_value_encoded [of v "[]"] by (simp add: json_loads_def)

section \<open>Properties of the validators\<close>

lemma validate_iter_to_vec_strings: "validate_iter_to_vec i (map JStr xs) = ([], xs)"
  by (induction xs arbitrary: i) (simp_all add: str_validator_def)

lemma list_str_validator_strings:
  "list_str_validator mn mx (JArr (map JStr xs)) =
     (if max_length_check mx (length xs) \<noteq> [] then Inl (max_length_check mx (length xs))
      else if min_length_check mn (length xs) \<noteq> [] then Inl (min_length_check mn (length xs))
      else Inr xs)"
  by (simp add: list_str_validator_def validate_iter_to_vec_strings)

lemma to_json_PyStr: "to_json \<circ> PyStr = JStr"
  by (rule ext) simp



















lemma validation_node_malformed:
  assumes "raw_response state = Some (Some raw)" and "json_loads raw = None"
  shows "validation_node state = (None, [Validation_Error Json_invalid []])"
  using assms by (simp add: validation_node_def model_validate_json_def)

text \<open>No state makes \<open>validation_node\<close> build an entry with the f-string of its
  \<open>JSONDecodeError\<close> handler, or with the one of its last handler.\<close>

lemma validation_node_entries:
  "e \<in> set (snd (validation_node state)) \<Longrightarrow> \<exists>msg loc. e = Validation_Error msg loc"
  by (auto simp: validation_node_def model_validate_json_def Let_def
        split: option.splits sum.splits)


section \<open>The fallback payload\<close>

lemma mock_word_count: "length (split mock_analysis) = 108"
  by (simp add: split_def mock_analysis_def u_def isspace_def)

lemma mock_lengths:
  "length mock_themes = 5" "length mock_signifiers = 5" "length mock_hypotheses = 3"
  "length mock_questions = 4" "length mock_signals = 2"
  by (simp_all add: mock_themes_def mock_signifiers_def mock_hypotheses_def mock_questions_def
        mock_signals_def)

lemma mock_analysis_valid: "analysis_validator (JStr mock_analysis) = Inr mock_analysis"
  by (simp add: analysis_validator_def str_validator_def validate_analysis_length_def
        mock_word_count)

lemma mock_validates: "ClinicalOutput_validator (to_json mock_response) = Inr fallback_output"
  by (simp add: ClinicalOutput_validator_def mock_response_def field_def u_def
        mock_analysis_valid list_str_validator_strings mock_lengths
        RiskAssessment_validator_def ClinicalReport_validator_def
        literal_validator_def mock_level_def bool_validator_def str_validator_def to_json_PyStr
        fallback_output_def)

lemma fallback_validates:
  "model_validate_json (Some (json_dumps mock_response)) = Inr fallback_output"
  by (simp add: model_validate_json_def json_loads_json_dumps mock_validates)

lemma fallback_spec_valid: "spec_valid fallback_output"
  by (simp add: spec_valid_def fallback_output_def mock_word_count mock_lengths mock_level_def)

lemma model_dump_fallback: "model_dump fallback_output = mock_response"
  by (simp add: model_dump_def fallback_output_def mock_response_def)

section \<open>Properties of the loop\<close>

lemma split_from_words:
  "split_from [] (concat (replicate n (u ''ab '')) @ s) = replicate n (u ''ab'') @ split_from [] s"
  by (induction n) (simp_all add: u_def isspace_def)

lemma length_split_words: "length (split (words n)) = n"
  using split_from_words [of n "[]"] by (simp add: split_def words_def)

lemma loop_body_eq:
  "loop_body w pv item (rs, k) =
     (rs @ [item_result w pv item], k + (if ItemResult.ok (item_result w pv item) then 1 else 0))"
  by (cases item) (simp add: loop_body_def item_result_def Let_def split: sum.splits)

lemma main_loop_eq:
  "main_loop w pv i items (rs, k) =
     (rs @ map (\<lambda>(j, item). item_result (w j) pv item) (zip [i..<i + length items] items),
      k + int (length (filter ItemResult.ok
            (map (\<lambda>(j, item). item_result (w j) pv item) (zip [i..<i + length items] items)))))"
proof (induction items arbitrary: i rs k)
  case Nil
  show ?case by simp
next
  case (Cons item items)
  have "[i..<i + length (item # items)] = i # [Suc i..<Suc i + length items]"
    by (subst upt_rec) simp
  then show ?case by (simp add: loop_body_eq Cons.IH del: upt_Suc)
qed

lemma results_main:
  "results (main w pv items)
   = map (\<lambda>(j, item). item_result (w j) pv item) (zip [0..<length items] items)"
  using main_loop_eq [of w pv 0 items "[]" 0] by (simp add: main_def)

lemma ok_count_main:
  "Metrics.ok (metrics (main w pv items))
   = int (length (filter ItemResult.ok (results (main w pv items))))"
  using main_loop_eq [of w pv 0 items "[]" 0] by (simp add: main_def)

lemma total_main: "total (main w pv items) = int (length (results (main w pv items)))"
  by (simp add: main_def split: prod.splits)

lemma failed_main:
  "failed (metrics (main w pv items))
   = total (main w pv items) - Metrics.ok (metrics (main w pv items))"
  by (simp add: main_def split: prod.splits)

lemma length_results_main: "length (results (main w pv items)) = length items"
  by (simp add: results_main)

lemma nth_results_main:
  "j < length items \<Longrightarrow> results (main w pv items) ! j = item_result (w j) pv (items ! j)"
  by (simp add: results_main)

lemma file_item_result: "file (item_result w pv item) = fst item"
  by (cases item) (simp add: item_result_def loop_body_def Let_def split: sum.splits)

lemma item_result_fault:
  "invoke w (initial_state fname text pv) = Inl e \<Longrightarrow>
   item_result w pv (fname, text)
   = \<lparr>file = fname, ok = False, errors = [Runtime_Error e], output = None\<rparr>"
  by (simp add: item_result_def loop_body_def)

lemma item_result_ok_iff:
  "ItemResult.ok (item_result w pv item)
   = (output (item_result w pv item) \<noteq> None \<and> ItemResult.errors (item_result w pv item) = [])"
  by (cases item) (auto simp: item_result_def loop_body_def Let_def split: sum.splits)

lemma item_result_not_ok:
  "\<not> ItemResult.ok (item_result w pv item) \<Longrightarrow> output (item_result w pv item) = None"
  by (cases item) (auto simp: item_result_def loop_body_def Let_def split: sum.splits)

section \<open>Concrete runs\<close>

lemma not_json_malformed: "json_loads (u ''not json'') = None"
  by (simp add: json_loads_def parse_value.simps next_char_def is_json_ws_def atom_def
        startswith_def number_def is_digit_def u_def)


lemma item_result_quota:
  "item_result quota_world pv (fname, text)
   = \<lparr>file = fname, ok = True, errors = [], output = Some mock_response\<rparr>"
  by (simp add: item_result_def loop_body_def invoke_def generation_node_def load_prompt_def
        quota_world_def call_model_def validation_node_def fallback_validates
        initial_state_def model_dump_fallback Let_def)

lemma invoke_unreadable:
  "invoke unreadable_world (initial_state fname text pv) = Inl (u ''cannot decode'')"
  by (simp add: invoke_def generation_node_def load_prompt_def unreadable_world_def
        initial_state_def)

text \<open>Three input items; the prompt file cannot be read while the second is processed,
  and the model call fails for the other two.\<close>

lemma three_items_results:
  "results (main (\<lambda>i. if i = 1 then unreadable_world else quota_world) (u ''v2'')
      [(u ''a.txt'', u ''Eu sempre chego atrasado.''), (u ''b.txt'', u ''x''), (u ''c.txt'', u ''y'')])
   = [\<lparr>file = u ''a.txt'', ok = True, errors = [], output = Some mock_response\<rparr>,
      \<lparr>file = u ''b.txt'', ok = False, errors = [Runtime_Error (u ''cannot decode'')],
        output = None\<rparr>,
      \<lparr>file = u ''c.txt'', ok = True, errors = [], output = Some mock_response\<rparr>]"
  by (simp add: results_main upt_rec [of 0] upt_rec [of 1] upt_rec [of 2] upt_rec [of 3]
        item_result_quota item_result_fault [OF invoke_unreadable])

text \<open>The scenario of one input file, no prompt file for the version, and a model call
  that fails: the report has one result, with \<open>ok\<close> true, no errors and the fields of the
  fallback payload as output.\<close>

lemma end_to_end_fallback:
  "main (\<lambda>i. quota_world) (u ''v2'') [(u ''a.txt'', u ''Eu sempre chego atrasado.'')]
   = \<lparr>prompt_version = u ''v2'', total = 1, metrics = \<lparr>Metrics.ok = 1, failed = 0\<rparr>,
      results = [\<lparr>file = u ''a.txt'', ok = True, errors = [], output = Some mock_response\<rparr>]\<rparr>"
  by (simp add: main_def loop_body_eq item_result_quota)

text \<open>Whenever the model call of the generation node fails, the node returns the
  serialized fallback payload, whatever the input text and the prompt version.\<close>

lemma generation_node_fallback:
  assumes "load_prompt w (ClinicalState.prompt_version state) = Inr template"
    and "chat_completion w (replace template (u ''{INPUT}'') (input_text state)) = Inl e"
  shows "generation_node w state = Inr (Some (json_dumps mock_response))"
  using assms by (simp add: generation_node_def call_model_def)

section \<open>The claims\<close>

text \<open>
  C1. For every prompt, if the external model call raises an exception, \<open>call_model\<close>
  does not propagate it: it returns the serialized fallback payload. Validating that text
  succeeds with zero errors, the validated object has the fields of the payload, and it
  satisfies every word-count, cardinality and enumeration constraint of the data model.
\<close>

theorem fallback_payload_validates:
  assumes "chat_completion w prompt = Inl e"
  shows "call_model w prompt = Some (json_dumps mock_response)
       \<and> validation_node (state\<lparr>raw_response := Some (call_model w prompt)\<rparr>)
           = (Some fallback_output, [])
       \<and> model_dump fallback_output = mock_response
       \<and> spec_valid fallback_output"
  using assms
  by (simp add: call_model_def validation_node_def fallback_validates model_dump_fallback
        fallback_spec_valid)

theorem fallback_payload_validates_witness:
  "chat_completion quota_world (u ''Texto: abc'') = Inl (u ''quota'')
   \<and> validation_node
        ((initial_state (u ''a.txt'') (u ''abc'') (u ''v2''))
           \<lparr>raw_response := Some (call_model quota_world (u ''Texto: abc''))\<rparr>)
      = (Some fallback_output, [])"
proof -
  have h: "chat_completion quota_world (u ''Texto: abc'') = Inl (u ''quota'')"
    by (simp add: quota_world_def)
  from fallback_payload_validates [OF h] h show ?thesis by blast
qed

text \<open>
  C2. The analysis rule counts the whitespace-separated tokens of the string: it accepts
  (returns the string unchanged) exactly when the count lies between 40 and 200, both
  included. A text of exactly 40 words is accepted, one of 39 is rejected as too short,
  one of exactly 200 is accepted, and one of 201 is rejected as too long.
\<close>

theorem analysis_word_count_rule:
  "(validate_analysis_length v = Inr v) = (40 \<le> length (split v) \<and> length (split v) \<le> 200)
   \<and> validate_analysis_length (words 40) = Inr (words 40)
   \<and> validate_analysis_length (words 39) = Inl (Analise_muito_curta 39 40)
   \<and> validate_analysis_length (words 200) = Inr (words 200)
   \<and> validate_analysis_length (words 201) = Inl (Analise_muito_longa 201 200)"
  by (simp add: validate_analysis_length_def Let_def length_split_words)

text \<open>
  C3. For every batch run, \<open>metrics.ok + metrics.failed = total = len(results)\<close>, where
  \<open>metrics.ok\<close> is the number of results with \<open>ok\<close> true and \<open>metrics.failed\<close> is \<open>total\<close>
  minus that number.
\<close>

theorem metrics_identity:
  "Metrics.ok (metrics (main w pv items)) + failed (metrics (main w pv items))
     = total (main w pv items)
   \<and> total (main w pv items) = int (length (results (main w pv items)))
   \<and> Metrics.ok (metrics (main w pv items))
     = int (length (filter ItemResult.ok (results (main w pv items))))
   \<and> failed (metrics (main w pv items))
     = total (main w pv items) - Metrics.ok (metrics (main w pv items))"
  using ok_count_main [of w pv items] total_main [of w pv items] failed_main [of w pv items]
  by simp

text \<open>
  C4. In every result of a batch run, \<open>ok\<close> is true if and only if \<open>output\<close> is present and
  \<open>errors\<close> is empty; when \<open>ok\<close> is false, \<open>output\<close> is absent.
\<close>

theorem ok_iff_output_and_no_errors:
  assumes "r \<in> set (results (main w pv items))"
  shows "ItemResult.ok r = (output r \<noteq> None \<and> ItemResult.errors r = [])
       \<and> (\<not> ItemResult.ok r \<longrightarrow> output r = None)"
proof -
  from assms obtain j item where "r = item_result (w j) pv item"
    by (auto simp: results_main)
  then show ?thesis
    using item_result_ok_iff [of "w j" pv item] item_result_not_ok [of "w j" pv item] by simp
qed

theorem ok_iff_output_and_no_errors_witness:
  "\<lparr>file = u ''b.txt'', ok = False, errors = [Runtime_Error (u ''cannot decode'')],
      output = None\<rparr>
   \<in> set (results (main (\<lambda>i. if i = 1 then unreadable_world else quota_world) (u ''v2'')
        [(u ''a.txt'', u ''Eu sempre chego atrasado.''), (u ''b.txt'', u ''x''),
         (u ''c.txt'', u ''y'')]))
   \<and> ItemResult.ok
         \<lparr>file = u ''b.txt'', ok = False, errors = [Runtime_Error (u ''cannot decode'')],
            output = None\<rparr>
       = (output
            \<lparr>file = u ''b.txt'', ok = False, errors = [Runtime_Error (u ''cannot decode'')],
               output = None\<rparr> \<noteq> None
          \<and> ItemResult.errors
              \<lparr>file = u ''b.txt'', ok = False, errors = [Runtime_Error (u ''cannot decode'')],
                 output = None\<rparr> = [])
   \<and> \<lparr>file = u ''a.txt'', ok = True, errors = [], output = Some mock_response\<rparr>
   \<in> set (results (main (\<lambda>i. if i = 1 then unreadable_world else quota_world) (u ''v2'')
        [(u ''a.txt'', u ''Eu sempre chego atrasado.''), (u ''b.txt'', u ''x''),
         (u ''c.txt'', u ''y'')]))
   \<and> ItemResult.ok \<lparr>file = u ''a.txt'', ok = True, errors = [], output = Some mock_response\<rparr>
       = (output \<lparr>file = u ''a.txt'', ok = True, errors = [], output = Some mock_response\<rparr>
            \<noteq> None
          \<and> ItemResult.errors
              \<lparr>file = u ''a.txt'', ok = True, errors = [], output = Some mock_response\<rparr> = [])"
proof -
  let ?rs = "results (main (\<lambda>i. if i = 1 then unreadable_world else quota_world) (u ''v2'')
        [(u ''a.txt'', u ''Eu sempre chego atrasado.''), (u ''b.txt'', u ''x''),
         (u ''c.txt'', u ''y'')])"
  let ?b = "\<lparr>file = u ''b.txt'', ok = False, errors = [Runtime_Error (u ''cannot decode'')],
      output = None\<rparr>"
  let ?a = "\<lparr>file = u ''a.txt'', ok = True, errors = [], output = Some mock_response\<rparr>"
  have b: "?b \<in> set ?rs" and a: "?a \<in> set ?rs"
    using three_items_results by simp_all
  from ok_iff_output_and_no_errors [OF b] ok_iff_output_and_no_errors [OF a] a b
  show ?thesis by blast
qed

text \<open>
  C5. If processing an item raises a failure that neither node catches, the batch does
  not abort: the item gets a result with \<open>ok\<close> false, one error entry that describes the
  runtime fault, and no output; the batch completes with \<open>total\<close> equal to the number of
  inputs, and every item has the result it has in a batch of its own.
\<close>

theorem runtime_fault_is_recorded:
  assumes "i < length items"
    and "invoke (w i) (initial_state (fst (items ! i)) (snd (items ! i)) pv) = Inl e"
  shows "results (main w pv items) ! i
           = \<lparr>file = fst (items ! i), ok = False, errors = [Runtime_Error e], output = None\<rparr>
       \<and> total (main w pv items) = int (length items)
       \<and> length (results (main w pv items)) = length items
       \<and> (\<forall>j < length items.
            results (main w pv items) ! j = results (main (\<lambda>k. w j) pv [items ! j]) ! 0)"
proof -
  have "item_result (w i) pv (items ! i)
        = \<lparr>file = fst (items ! i), ok = False, errors = [Runtime_Error e], output = None\<rparr>"
    using item_result_fault [of "w i" "fst (items ! i)" "snd (items ! i)" pv e] assms(2) by simp
  then show ?thesis
    using assms(1) by (simp add: nth_results_main total_main length_results_main)
qed

theorem runtime_fault_is_recorded_witness:
  "1 < length [(u ''a.txt'', u ''Eu sempre chego atrasado.''), (u ''b.txt'', u ''x''),
               (u ''c.txt'', u ''y'')]
   \<and> invoke unreadable_world (initial_state (u ''b.txt'') (u ''x'') (u ''v2''))
       = Inl (u ''cannot decode'')
   \<and> results (main (\<lambda>i. if i = 1 then unreadable_world else quota_world) (u ''v2'')
        [(u ''a.txt'', u ''Eu sempre chego atrasado.''), (u ''b.txt'', u ''x''),
         (u ''c.txt'', u ''y'')]) ! 1
       = \<lparr>file = u ''b.txt'', ok = False, errors = [Runtime_Error (u ''cannot decode'')],
          output = None\<rparr>
   \<and> total (main (\<lambda>i. if i = 1 then unreadable_world else quota_world) (u ''v2'')
        [(u ''a.txt'', u ''Eu sempre chego atrasado.''), (u ''b.txt'', u ''x''),
         (u ''c.txt'', u ''y'')]) = 3"
  using runtime_fault_is_recorded
    [of 1 "[(u ''a.txt'', u ''Eu sempre chego atrasado.''), (u ''b.txt'', u ''x''),
            (u ''c.txt'', u ''y'')]"
        "\<lambda>i. if i = 1 then unreadable_world else quota_world" "u ''v2''" "u ''cannot decode''"]
    invoke_unreadable [of "u ''b.txt''" "u ''x''" "u ''v2''"]
  by simp

text \<open>
  C8. The results of a batch run have one entry per input item, in the order of the
  input: the entry at each position carries the file name of the item at that position
  and is the result of processing that item.
\<close>

theorem results_preserve_input_order:
  "length (results (main w pv items)) = length items
   \<and> map file (results (main w pv items)) = map fst items
   \<and> (\<forall>j < length items. results (main w pv items) ! j = item_result (w j) pv (items ! j))"
proof -
  have "map file (results (main w pv items)) = map fst items"
    by (rule nth_equalityI)
       (simp_all add: length_results_main nth_results_main file_item_result)
  then show ?thesis
    by (simp add: length_results_main nth_results_main)
qed

theorem results_preserve_input_order_witness:
  "map file (results (main (\<lambda>i. if i = 1 then unreadable_world else quota_world) (u ''v2'')
        [(u ''a.txt'', u ''Eu sempre chego atrasado.''), (u ''b.txt'', u ''x''),
         (u ''c.txt'', u ''y'')]))
   = [u ''a.txt'', u ''b.txt'', u ''c.txt'']
   \<and> results (main (\<lambda>i. if i = 1 then unreadable_world else quota_world) (u ''v2'')
        [(u ''a.txt'', u ''Eu sempre chego atrasado.''), (u ''b.txt'', u ''x''),
         (u ''c.txt'', u ''y'')]) ! 2
     = item_result quota_world (u ''v2'') (u ''c.txt'', u ''y'')"
  using results_preserve_input_order
    [of "\<lambda>i. if i = 1 then unreadable_world else quota_world" "u ''v2''"
        "[(u ''a.txt'', u ''Eu sempre chego atrasado.''), (u ''b.txt'', u ''x''),
          (u ''c.txt'', u ''y'')]"]
  by simp

text \<open>
  C10. On the fallback path the returned text does not depend on the prompt: whenever the
  model call fails for two prompts (in the same or in two different worlds), \<open>call_model\<close>
  returns the same text for both, the serialized fallback payload.
\<close>

theorem fallback_is_prompt_insensitive:
  assumes "chat_completion w p1 = Inl e1" and "chat_completion w' p2 = Inl e2"
  shows "call_model w p1 = call_model w' p2
       \<and> call_model w p1 = Some (json_dumps mock_response)"
  using assms by (simp add: call_model_def)

theorem fallback_is_prompt_insensitive_witness:
  "chat_completion quota_world (u ''first prompt'') = Inl (u ''quota'')
   \<and> chat_completion unreadable_world (u ''another'') = Inl (u ''quota'')
   \<and> call_model quota_world (u ''first prompt'') = call_model unreadable_world (u ''another'')"
proof -
  have h1: "chat_completion quota_world (u ''first prompt'') = Inl (u ''quota'')"
    by (simp add: quota_world_def)
  have h2: "chat_completion unreadable_world (u ''another'') = Inl (u ''quota'')"
    by (simp add: unreadable_world_def)
  from fallback_is_prompt_insensitive [OF h1 h2] h1 h2 show ?thesis by blast
qed

text \<open>
  C6. For a raw text that is not well-formed JSON the validation node returns no object
  and exactly one error entry. The entry is built by the handler of \<open>ValidationError\<close>,
  with the same f-string as the entries of field violations; the handler of
  \<open>json.JSONDecodeError\<close>, which would mark it as a parse error, builds no entry in any
  state.
\<close>

theorem malformed_json_entry:
  "validation_node
     ((initial_state (u ''a.txt'') (u ''x'') (u ''v2''))\<lparr>raw_response := Some (Some (u ''not json''))\<rparr>)
   = (None, [Validation_Error Json_invalid []])
   \<and> (\<forall>state e. Erro_de_Parse_JSON e \<notin> set (snd (validation_node state)))"
proof -
  have "Erro_de_Parse_JSON e \<notin> set (snd (validation_node state))" for state e
    using validation_node_entries [of "Erro_de_Parse_JSON e" state] by auto
  then show ?thesis
    by (simp add: validation_node_malformed not_json_malformed)
qed




end
